theory Spec2Isabelle
  imports Main "HOL-Library.Sublist" "HOL-Library.AList" "HOL-Library.Word"
begin

section \<open>JavaScript values and the world the plugin runs in\<close>

text \<open>
  The plugin is TypeScript on Node: \<^verbatim>\<open>tools.ts\<close> (the revision with eleven tools, which
  the test suite exercises) and \<^verbatim>\<open>oauth.ts\<close>. A string is modelled by its UTF-8 bytes, a
  thrown value by \<open>js_error\<close>, a value that may be \<^verbatim>\<open>undefined\<close> by an option, and
  every \<^verbatim>\<open>async\<close> function by a function from the world before the call to its outcome
  and the world after it: one call runs at a time, so \<^verbatim>\<open>await\<close> is sequencing. Numbers
  are the integers of timestamps and durations in milliseconds, on which the arithmetic
  of the code is exact below \<open>2 ^ 53\<close>; a number that is absent or not a number is
  \<open>None\<close>.
\<close>

datatype js_error = Error string | ThrownUndefined

fun message :: "js_error \<Rightarrow> string" where
  "message (Error m) = m"
| "message ThrownUndefined = ''undefined''"

datatype json =
    JNull
  | JBool bool
  | JNum int
  | JStr string
  | JArr "json list"
  | JObj "(string \<times> json) list"

type_synonym byte = "8 word"

subsection \<open>Truthiness, trim, includes, template literals\<close>

text \<open>An optional string is truthy when it is defined and not empty; an optional number
  when it is a number other than zero.\<close>

fun truthy :: "string option \<Rightarrow> bool" where
  "truthy None = False"
| "truthy (Some s) = (s \<noteq> [])"

fun truthy_num :: "int option \<Rightarrow> bool" where
  "truthy_num None = False"
| "truthy_num (Some n) = (n \<noteq> 0)"

text \<open>
  \<^verbatim>\<open>String.prototype.trim\<close> removes, at both ends, every code point that is WhiteSpace or
  LineTerminator in ECMAScript: U+0009 to U+000D, U+0020, U+00A0, U+1680, U+2000 to
  U+200A, U+2028, U+2029, U+202F, U+205F, U+3000 and U+FEFF; here in UTF-8.
\<close>

definition white_space :: "string list" where
  "white_space =
     [[CHR 0x09], [CHR 0x0A], [CHR 0x0B], [CHR 0x0C], [CHR 0x0D], [CHR 0x20],
      [CHR 0xC2, CHR 0xA0],
      [CHR 0xE1, CHR 0x9A, CHR 0x80],
      [CHR 0xE2, CHR 0x80, CHR 0x80], [CHR 0xE2, CHR 0x80, CHR 0x81],
      [CHR 0xE2, CHR 0x80, CHR 0x82], [CHR 0xE2, CHR 0x80, CHR 0x83],
      [CHR 0xE2, CHR 0x80, CHR 0x84], [CHR 0xE2, CHR 0x80, CHR 0x85],
      [CHR 0xE2, CHR 0x80, CHR 0x86], [CHR 0xE2, CHR 0x80, CHR 0x87],
      [CHR 0xE2, CHR 0x80, CHR 0x88], [CHR 0xE2, CHR 0x80, CHR 0x89],
      [CHR 0xE2, CHR 0x80, CHR 0x8A],
      [CHR 0xE2, CHR 0x80, CHR 0xA8], [CHR 0xE2, CHR 0x80, CHR 0xA9],
      [CHR 0xE2, CHR 0x80, CHR 0xAF],
      [CHR 0xE2, CHR 0x81, CHR 0x9F],
      [CHR 0xE3, CHR 0x80, CHR 0x80],
      [CHR 0xEF, CHR 0xBB, CHR 0xBF]]"

text \<open>Removing from the front of \<open>s\<close> as long as one of the sequences \<open>ts\<close> starts it.\<close>

function strip :: "string list \<Rightarrow> string \<Rightarrow> string" where
  "strip ts s =
     (case find (\<lambda>t. t \<noteq> [] \<and> prefix t s) ts of
        None \<Rightarrow> s
      | Some t \<Rightarrow> strip ts (drop (length t) s))"
  by pat_completeness auto
termination
proof (relation "measure (\<lambda>(ts, s). length s)")
  show "wf (measure (\<lambda>(ts, s). length s))" by simp
next
  fix ts :: "string list" and s t :: string
  assume "find (\<lambda>t. t \<noteq> [] \<and> prefix t s) ts = Some t"
  then have "t \<noteq> [] \<and> prefix t s" by (auto simp: find_Some_iff)
  then have "0 < length t" "length t \<le> length s" by (auto simp: prefix_length_le)
  then have "length s - length t < length s" by arith
  then show "((ts, drop (length t) s), (ts, s)) \<in> measure (\<lambda>(ts, s). length s)" by simp
qed

declare strip.simps [simp del]

definition trim :: "string \<Rightarrow> string" where
  "trim s = rev (strip (map rev white_space) (rev (strip white_space s)))"

text \<open>\<^verbatim>\<open>String.prototype.includes\<close>: the needle occurs somewhere in the string.\<close>

fun str_includes :: "string \<Rightarrow> string \<Rightarrow> bool" where
  "str_includes [] n = (n = [])"
| "str_includes (c # s) n = (prefix n (c # s) \<or> str_includes s n)"

text \<open>Inside a template literal, a number is its decimal digits and a string that is
  \<^verbatim>\<open>undefined\<close> is the word.\<close>

definition digit_char :: "nat \<Rightarrow> char" where
  "digit_char d = ''0123456789'' ! d"

fun string_of_nat :: "nat \<Rightarrow> string" where
  "string_of_nat n =
     (if n < 10 then [digit_char n] else string_of_nat (n div 10) @ [digit_char (n mod 10)])"

declare string_of_nat.simps [simp del]

fun interpolate :: "string option \<Rightarrow> string" where
  "interpolate None = ''undefined''"
| "interpolate (Some s) = s"

subsection \<open>Credential store, HTTP, and the world\<close>

text \<open>The record type that \<^verbatim>\<open>getToken\<close> casts the parsed store to. A member of another
  type than the cast says is outside the model.\<close>

record credential =
  cred_type :: "string option"
  access :: "string option"
  refresh :: "string option"
  expires :: "int option"
  key :: "string option"
  email :: "string option"
  provider :: "string option"

record store =
  profiles :: "(string \<times> credential) list option"

text \<open>A file as \<^verbatim>\<open>JSON.parse\<close> sees it: a store document, or text that it rejects
  with the given error.\<close>

datatype disk_file = StoreFile store | Unparsable js_error

datatype req_body =
    NoBody
  | JsonBody json
  | FormBody "(string \<times> string) list"
  | MultipartFile string "byte list"

record request =
  req_method :: string
  url :: string
  headers :: "(string \<times> string) list"
  body :: req_body

text \<open>A response: \<open>body_read\<close> is what reading its body (\<^verbatim>\<open>res.text()\<close>) gives.\<close>

record response =
  status :: nat
  content_type :: "string option"
  body_read :: "js_error + string"

datatype fetch_result = FetchFailed js_error | Fetched response

text \<open>\<^verbatim>\<open>res.ok\<close>\<close>

definition ok :: "response \<Rightarrow> bool" where
  "ok res = (200 \<le> status res \<and> status res \<le> 299)"

text \<open>The members of the token endpoint's reply that \<^verbatim>\<open>exchangeCode\<close> and
  \<^verbatim>\<open>refreshAccessToken\<close> read, each of which may be missing.\<close>

record token_data =
  access_token :: "string option"
  refresh_token :: "string option"
  expires_in :: "int option"
  data_email :: "string option"
  api_key :: "string option"

text \<open>What the local listener of the login flow sees: creating the server throws, a first
  request arrives with the given target, or no request ever arrives.\<close>

datatype listen_outcome =
    ListenFailed js_error
  | Callback string
  | NoCallback

datatype event =
    FileRead string
  | FileWrite string store
  | Fetch request
  | Sleep nat
  | Prompt string
  | Listen
  | OpenUrl string

text \<open>
  The world: the environment variable; the disk, the error of a read that fails and, for
  a path that cannot be written, the error and what the failed write leaves there; the
  clock and the time the n-th \<^verbatim>\<open>fetch\<close> takes; what the network answers to the n-th
  \<^verbatim>\<open>fetch\<close>; the runtime's parsers, hash and random bytes; the user and the browser of
  the login flow; and the trace of what the program has done so far.
\<close>

record world =
  env_SANDBOX_API_KEY :: "string option"
  disk :: "string \<rightharpoonup> disk_file"
  read_error :: "string \<Rightarrow> js_error"
  write_outcome :: "string \<Rightarrow> (js_error \<times> disk_file option) option"
  now :: int
  latency :: "nat \<Rightarrow> nat"
  net :: "nat \<Rightarrow> fetch_result"
  JSON_parse :: "string \<Rightarrow> js_error + json"
  token_json :: "string \<Rightarrow> js_error + token_data"
  URL_searchParams :: "string \<Rightarrow> (string \<times> string) list option"
  request_searchParams :: "string \<Rightarrow> (string \<times> string) list option"
  sha256_base64url :: "string \<Rightarrow> string"
  random_verifier :: string
  random_state :: string
  prompt_reply :: "string \<Rightarrow> js_error + string"
  listener :: listen_outcome
  trace :: "event list"

fun is_fetch :: "event \<Rightarrow> bool" where
  "is_fetch (Fetch r) = True"
| "is_fetch e = False"

fun is_write :: "event \<Rightarrow> bool" where
  "is_write (FileWrite p s) = True"
| "is_write e = False"

definition fetches :: "world \<Rightarrow> event list" where
  "fetches w = filter is_fetch (trace w)"

definition log :: "event \<Rightarrow> world \<Rightarrow> world" where
  "log e w = w\<lparr>trace := trace w @ [e]\<rparr>"

text \<open>\<^verbatim>\<open>fetch\<close>: the request goes out, time passes, the network answers.\<close>

definition fetch :: "request \<Rightarrow> world \<Rightarrow> fetch_result \<times> world" where
  "fetch req w =
     (net w (length (fetches w)),
      (log (Fetch req) w)\<lparr>now := now w + int (latency w (length (fetches w)))\<rparr>)"

text \<open>\<^verbatim>\<open>await new Promise((r) => setTimeout(r, ms))\<close>\<close>

definition sleep :: "nat \<Rightarrow> world \<Rightarrow> world" where
  "sleep ms w = (log (Sleep ms) w)\<lparr>now := now w + int ms\<rparr>"

section \<open>oauth.ts: refreshAccessToken\<close>

definition OAUTH_BASE_URL :: string where
  "OAUTH_BASE_URL = ''https://agent-sandbox-api-870094711355.us-central1.run.app''"

record refreshed =
  accessToken :: "string option"
  refreshToken :: "string option"
  expiresAt :: "int option"

definition refresh_request :: "string \<Rightarrow> request" where
  "refresh_request refreshToken_in =
     \<lparr>req_method = ''POST'', url = OAUTH_BASE_URL @ ''/oauth/token'',
      headers = [(''Content-Type'', ''application/x-www-form-urlencoded'')],
      body = FormBody [(''grant_type'', ''refresh_token''), (''refresh_token'', refreshToken_in)]\<rparr>"

definition refreshAccessToken :: "string \<Rightarrow> world \<Rightarrow> (js_error + refreshed) \<times> world" where
  "refreshAccessToken refreshToken_in w =
     (case fetch (refresh_request refreshToken_in) w of
        (FetchFailed e, w1) \<Rightarrow> (Inl e, w1)
      | (Fetched res, w1) \<Rightarrow>
          if \<not> ok res then
            (case body_read res of
               Inl e \<Rightarrow> (Inl e, w1)
             | Inr text \<Rightarrow>
                 (Inl (Error (''Token refresh failed ('' @ string_of_nat (status res) @ ''): ''
                              @ text)), w1))
          else
            (case body_read res of
               Inl e \<Rightarrow> (Inl e, w1)
             | Inr text \<Rightarrow>
                 (case token_json w1 text of
                    Inl e \<Rightarrow> (Inl e, w1)
                  | Inr d \<Rightarrow>
                      (Inr \<lparr>accessToken = access_token d, refreshToken = refresh_token d,
                            expiresAt = map_option (\<lambda>s. now w1 + s * 1000) (expires_in d)\<rparr>,
                       w1))))"

section \<open>tools.ts: getToken\<close>

record ToolCtx =
  config_profiles :: "(string \<times> string option) list"
  agentDir :: "string option"

text \<open>\<^verbatim>\<open>ctx.config?.auth?.profiles ?? {}\<close> is the list of its entries, each profile reduced
  to its \<^verbatim>\<open>provider\<close>; \<^verbatim>\<open>path.join\<close> is modelled for a directory without a trailing
  separator.\<close>

definition path_join :: "string \<Rightarrow> string \<Rightarrow> string" where
  "path_join d f = d @ ''/'' @ f"

definition NO_PROFILE :: string where
  "NO_PROFILE = ''No auth profile for agentsandbox. Tell the user to run `openclaw models auth login --provider agentsandbox` in their terminal, or set the SANDBOX_API_KEY environment variable. Do NOT attempt the OAuth flow in this conversation '' @ [CHR 0xE2, CHR 0x80, CHR 0x94] @ '' it requires a separate CLI command.''"

definition NO_AGENT_DIR :: string where
  "NO_AGENT_DIR = ''agentDir missing; tool must run in an agent context.''"

definition MISSING_CREDENTIAL :: "string \<Rightarrow> string" where
  "MISSING_CREDENTIAL profileId = ''Missing credential for profile '' @ profileId @ ''. Tell the user to run `openclaw models auth login --provider agentsandbox` in their terminal to re-authenticate. Do NOT attempt the OAuth flow in this conversation.''"

definition ALL_TOKENS_EXPIRED :: string where
  "ALL_TOKENS_EXPIRED = ''All tokens expired and no refresh token available. Tell the user to run `openclaw models auth login --provider agentsandbox` in their terminal to re-authenticate. Do NOT attempt the OAuth flow in this conversation.''"

definition bufferMs :: int where
  "bufferMs = 5 * 60 * 1000"

text \<open>\<^verbatim>\<open>cred.access && cred.expires && Date.now() < cred.expires - bufferMs\<close>\<close>

definition access_usable :: "credential \<Rightarrow> int \<Rightarrow> bool" where
  "access_usable cred t =
     (truthy (access cred) \<and> truthy_num (expires cred) \<and> t < the (expires cred) - bufferMs)"

text \<open>\<^verbatim>\<open>await fs.readFile(authPath, "utf8")\<close> followed by \<^verbatim>\<open>JSON.parse\<close>.\<close>

definition read_store :: "string \<Rightarrow> world \<Rightarrow> (js_error + store) \<times> world" where
  "read_store p w =
     (case disk w p of
        None \<Rightarrow> (Inl (read_error w p), log (FileRead p) w)
      | Some (Unparsable e) \<Rightarrow> (Inl e, log (FileRead p) w)
      | Some (StoreFile st) \<Rightarrow> (Inr st, log (FileRead p) w))"

text \<open>\<^verbatim>\<open>await fs.writeFile(authPath, JSON.stringify(store, null, 2), "utf8")\<close>: the file
  holds the store, or the write is rejected.\<close>

definition write_store :: "string \<Rightarrow> store \<Rightarrow> world \<Rightarrow> js_error option \<times> world" where
  "write_store p st w =
     (case write_outcome w p of
        None \<Rightarrow> (None, log (FileWrite p st) (w\<lparr>disk := (disk w)(p \<mapsto> StoreFile st)\<rparr>))
      | Some (e, left) \<Rightarrow> (Some e, log (FileWrite p st) (w\<lparr>disk := (disk w)(p := left)\<rparr>)))"

text \<open>The profile entries of the store with the record of one profile replaced, in place.\<close>

definition set_cred :: "store \<Rightarrow> string \<Rightarrow> credential \<Rightarrow> store" where
  "set_cred st profileId cred =
     st\<lparr>profiles := map_option (AList.update profileId cred) (profiles st)\<rparr>"

definition getToken :: "ToolCtx \<Rightarrow> world \<Rightarrow> (js_error + string option) \<times> world" where
  "getToken ctx w =
     (let envKey = map_option trim (env_SANDBOX_API_KEY w) in
      if truthy envKey then (Inr envKey, w)
      else
        let profileId = map_option fst
              (find (\<lambda>(k, prov). prov = Some ''agentsandbox'') (config_profiles ctx)) in
        if \<not> truthy profileId then (Inl (Error NO_PROFILE), w)
        else if \<not> truthy (agentDir ctx) then (Inl (Error NO_AGENT_DIR), w)
        else
          let authPath = path_join (the (agentDir ctx)) ''auth-profiles.json'' in
          case read_store authPath w of
            (Inl e, w1) \<Rightarrow> (Inl e, w1)
          | (Inr st, w1) \<Rightarrow>
              (case Option.bind (profiles st) (\<lambda>ps. map_of ps (the profileId)) of
                 None \<Rightarrow> (Inl (Error (MISSING_CREDENTIAL (the profileId))), w1)
               | Some cred \<Rightarrow>
                   if truthy (key cred) then (Inr (key cred), w1)
                   else if access_usable cred (now w1) then (Inr (access cred), w1)
                   else if truthy (refresh cred) then
                     (case refreshAccessToken (the (refresh cred)) w1 of
                        (Inl e, w2) \<Rightarrow> (Inl e, w2)
                      | (Inr r, w2) \<Rightarrow>
                          let cred' = cred\<lparr>access := accessToken r,
                                            refresh := refreshToken r,
                                            expires := expiresAt r\<rparr>;
                              st' = set_cred st (the profileId) cred'
                          in (case write_store authPath st' w2 of
                                (Some e, w3) \<Rightarrow> (Inl e, w3)
                              | (None, w3) \<Rightarrow> (Inr (accessToken r), w3)))
                   else (Inl (Error ALL_TOKENS_EXPIRED), w1)))"

section \<open>tools.ts: apiRequest\<close>

definition BASE_URL :: string where
  "BASE_URL = ''https://api.agentsandbox.co''"

definition api_request ::
  "string \<Rightarrow> string \<Rightarrow> string option \<Rightarrow> json option \<Rightarrow> request" where
  "api_request method endpoint token body_opt =
     \<lparr>req_method = method, url = BASE_URL @ endpoint,
      headers = (''Authorization'', ''Bearer '' @ interpolate token) #
                (case body_opt of None \<Rightarrow> [] | Some b \<Rightarrow> [(''Content-Type'', ''application/json'')]),
      body = (case body_opt of None \<Rightarrow> NoBody | Some b \<Rightarrow> JsonBody b)\<rparr>"

text \<open>The error thrown for a response that is not \<^verbatim>\<open>ok\<close>:
  \<^verbatim>\<open>new Error(`API ${method} ${endpoint} failed (${res.status}): ${errText}`)\<close>\<close>

definition api_failure :: "string \<Rightarrow> string \<Rightarrow> nat \<Rightarrow> string \<Rightarrow> js_error" where
  "api_failure method endpoint st errText =
     Error (''API '' @ method @ '' '' @ endpoint @ '' failed ('' @ string_of_nat st
            @ ''): '' @ errText)"

text \<open>What \<^verbatim>\<open>apiRequest\<close> and \<^verbatim>\<open>apiUploadFile\<close> make of a response.\<close>

definition read_response ::
  "string \<Rightarrow> string \<Rightarrow> response \<Rightarrow> world \<Rightarrow> js_error + json" where
  "read_response method endpoint res w =
     (if \<not> ok res then
        (case body_read res of
           Inl e \<Rightarrow> Inl e
         | Inr errText \<Rightarrow> Inl (api_failure method endpoint (status res) errText))
      else if status res = 204 then Inr (JObj [])
      else if str_includes (case content_type res of None \<Rightarrow> [] | Some c \<Rightarrow> c) ''application/json''
      then
        (case body_read res of
           Inl e \<Rightarrow> Inl e
         | Inr text \<Rightarrow> if text \<noteq> [] then JSON_parse w text else Inr (JObj []))
      else
        (case body_read res of
           Inl e \<Rightarrow> Inl e
         | Inr text \<Rightarrow> Inr (JStr text)))"

definition apiRequest ::
  "string \<Rightarrow> string \<Rightarrow> string option \<Rightarrow> json option \<Rightarrow> world \<Rightarrow> (js_error + json) \<times> world"
  where
  "apiRequest method endpoint token body_opt w =
     (case fetch (api_request method endpoint token body_opt) w of
        (FetchFailed e, w1) \<Rightarrow> (Inl e, w1)
      | (Fetched res, w1) \<Rightarrow> (read_response method endpoint res w1, w1))"

section \<open>tools.ts: apiUploadFile\<close>

text \<open>
  \<^verbatim>\<open>Buffer.from(fileData, "base64")\<close> and \<^verbatim>\<open>buffer.toString("base64")\<close> are Node's, not
  this repository's. Decoding reads the characters before the first \<^verbatim>\<open>=\<close>, passes over
  those outside the alphabet (which has \<^verbatim>\<open>-\<close> and \<^verbatim>\<open>_\<close> beside \<^verbatim>\<open>+\<close> and \<^verbatim>\<open>/\<close>), and
  turns every four into three bytes, a rest of three into two, of two into one, and
  drops a rest of one. Encoding is RFC 4648 with padding.
\<close>

definition base64_alphabet :: string where
  "base64_alphabet = ''ABCDEFGHIJKLMNOPQRSTUVWXYZabcdefghijklmnopqrstuvwxyz0123456789+/''"

fun index_of :: "'a list \<Rightarrow> 'a \<Rightarrow> nat option" where
  "index_of [] c = None"
| "index_of (x # xs) c = (if x = c then Some 0 else map_option Suc (index_of xs c))"

definition unbase64 :: "char \<Rightarrow> nat option" where
  "unbase64 c =
     (if c = CHR ''-'' then Some 62 else if c = CHR ''_'' then Some 63
      else index_of base64_alphabet c)"

fun decode_sextets :: "nat list \<Rightarrow> byte list" where
  "decode_sextets (a # b # c # d # rest) =
     [of_nat (a * 4 + b div 16), of_nat (b mod 16 * 16 + c div 4), of_nat (c mod 4 * 64 + d)]
     @ decode_sextets rest"
| "decode_sextets [a, b, c] = [of_nat (a * 4 + b div 16), of_nat (b mod 16 * 16 + c div 4)]"
| "decode_sextets [a, b] = [of_nat (a * 4 + b div 16)]"
| "decode_sextets [a] = []"
| "decode_sextets [] = []"

definition Buffer_from_base64 :: "string \<Rightarrow> byte list" where
  "Buffer_from_base64 s =
     decode_sextets (List.map_filter unbase64 (takeWhile (\<lambda>c. c \<noteq> CHR ''='') s))"

definition base64_char :: "nat \<Rightarrow> char" where
  "base64_char i = base64_alphabet ! i"

fun toString_base64 :: "byte list \<Rightarrow> string" where
  "toString_base64 (x # y # z # rest) =
     [base64_char (unat x div 4), base64_char (unat x mod 4 * 16 + unat y div 16),
      base64_char (unat y mod 16 * 4 + unat z div 64), base64_char (unat z mod 64)]
     @ toString_base64 rest"
| "toString_base64 [x, y] =
     [base64_char (unat x div 4), base64_char (unat x mod 4 * 16 + unat y div 16),
      base64_char (unat y mod 16 * 4), CHR ''='']"
| "toString_base64 [x] =
     [base64_char (unat x div 4), base64_char (unat x mod 4 * 16), CHR ''='', CHR ''='']"
| "toString_base64 [] = []"

definition is_base64_char :: "char \<Rightarrow> bool" where
  "is_base64_char c = (c \<in> set base64_alphabet)"

text \<open>\<^verbatim>\<open>/^[A-Za-z0-9+/]*={0,2}$/.test(fileData)\<close>: a run of alphabet characters, then at
  most two \<^verbatim>\<open>=\<close>, then the end of the string.\<close>

definition base64Regex_test :: "string \<Rightarrow> bool" where
  "base64Regex_test fileData = (dropWhile is_base64_char fileData \<in> set ['''', ''='', ''==''])"

definition INVALID_BASE64 :: string where
  "INVALID_BASE64 = ''Invalid base64 encoding in file_data''"

definition upload_request :: "string \<Rightarrow> string option \<Rightarrow> string \<Rightarrow> string \<Rightarrow> request" where
  "upload_request endpoint token fileData filename =
     \<lparr>req_method = ''POST'', url = BASE_URL @ endpoint,
      headers = [(''Authorization'', ''Bearer '' @ interpolate token)],
      body = MultipartFile filename (Buffer_from_base64 fileData)\<rparr>"

definition apiUploadFile ::
  "string \<Rightarrow> string option \<Rightarrow> string \<Rightarrow> string \<Rightarrow> world \<Rightarrow> (js_error + json) \<times> world" where
  "apiUploadFile endpoint token fileData filename w =
     (if \<not> base64Regex_test fileData then (Inl (Error INVALID_BASE64), w)
      else
        case fetch (upload_request endpoint token fileData filename) w of
          (FetchFailed e, w1) \<Rightarrow> (Inl e, w1)
        | (Fetched res, w1) \<Rightarrow> (read_response ''POST'' endpoint res w1, w1))"

section \<open>tools.ts: the delete tools\<close>

text \<open>\<^verbatim>\<open>encodeURIComponent\<close>: every byte outside the unreserved set becomes \<^verbatim>\<open>%XX\<close>.\<close>

definition uri_unreserved :: string where
  "uri_unreserved =
     ''ABCDEFGHIJKLMNOPQRSTUVWXYZabcdefghijklmnopqrstuvwxyz0123456789-_.!~*()'' @ [CHR 0x27]"

definition hex_digit :: "nat \<Rightarrow> char" where
  "hex_digit n = ''0123456789ABCDEF'' ! (n mod 16)"

definition percent_encode :: "char \<Rightarrow> string" where
  "percent_encode c =
     (if c \<in> set uri_unreserved then [c]
      else [CHR ''%'', hex_digit (of_char c div 16), hex_digit (of_char c mod 16)])"

definition encodeURIComponent :: "string \<Rightarrow> string" where
  "encodeURIComponent s = concat (map percent_encode s)"

text \<open>\<^verbatim>\<open>message.match(/\((\d{3})\)/)\<close>: the digits of the leftmost parenthesised group of
  exactly three digits, and \<^verbatim>\<open>parseInt(_, 10)\<close> of such digits.\<close>

definition is_digit :: "char \<Rightarrow> bool" where
  "is_digit c = (c \<in> set ''0123456789'')"

fun status_match :: "string \<Rightarrow> string option" where
  "status_match [] = None"
| "status_match (c # s) =
     (if c = CHR ''('' \<and> 4 \<le> length s \<and> list_all is_digit (take 3 s) \<and> s ! 3 = CHR '')''
      then Some (take 3 s) else status_match s)"

definition parseInt :: "string \<Rightarrow> nat" where
  "parseInt ds = foldl (\<lambda>a c. 10 * a + (of_char c - of_char CHR ''0'')) 0 ds"

text \<open>An object literal is evaluated left to right; a later property of the same name
  replaces the value of the earlier one. Spreading a value copies its own enumerable
  properties: the members of an object, the elements of an array and the characters of a
  string under their indices, nothing for the rest.\<close>

definition object_literal :: "(string \<times> json) list \<Rightarrow> (string \<times> json) list" where
  "object_literal kvs = foldl (\<lambda>acc (k, v). AList.update k v acc) [] kvs"

fun spread :: "json \<Rightarrow> (string \<times> json) list" where
  "spread (JObj kvs) = kvs"
| "spread (JArr xs) = zip (map string_of_nat [0..<length xs]) xs"
| "spread (JStr s) = zip (map string_of_nat [0..<length s]) (map (\<lambda>c. JStr [c]) s)"
| "spread v = []"

text \<open>The text of a result is a literal or \<^verbatim>\<open>JSON.stringify(data, null, 2)\<close>.\<close>

datatype content = Text string | Stringify json

record tool_result =
  content :: content
  details :: "(string \<times> json) list"

text \<open>\<^verbatim>\<open>sandbox_destroy_session\<close> and \<^verbatim>\<open>sandbox_delete_file\<close> have the same body, up
  to the endpoint, the name of the parameter and the text of the 404 result.\<close>

datatype delete_tool = sandbox_destroy_session | sandbox_delete_file

fun endpoint_of :: "delete_tool \<Rightarrow> string \<Rightarrow> string" where
  "endpoint_of sandbox_destroy_session ident = ''/v1/sessions/'' @ encodeURIComponent ident"
| "endpoint_of sandbox_delete_file ident = ''/v1/files/'' @ encodeURIComponent ident"

fun param_name :: "delete_tool \<Rightarrow> string" where
  "param_name sandbox_destroy_session = ''session_id''"
| "param_name sandbox_delete_file = ''file_id''"

fun absent_text :: "delete_tool \<Rightarrow> string" where
  "absent_text sandbox_destroy_session = ''Session destroyed (already absent).''"
| "absent_text sandbox_delete_file = ''File deleted (already absent).''"

definition maxAttempts :: nat where
  "maxAttempts = 3"

definition deleted_result :: "delete_tool \<Rightarrow> string \<Rightarrow> json \<Rightarrow> tool_result" where
  "deleted_result tool ident data =
     \<lparr>content = Stringify data,
      details = object_literal ([(''ok'', JBool True), (param_name tool, JStr ident)] @ spread data)\<rparr>"

definition already_gone_result :: "delete_tool \<Rightarrow> string \<Rightarrow> tool_result" where
  "already_gone_result tool ident =
     \<lparr>content = Text (absent_text tool),
      details = object_literal [(''ok'', JBool True), (param_name tool, JStr ident),
                                (''already_gone'', JBool True)]\<rparr>"

text \<open>\<^verbatim>\<open>err instanceof Error ? err : new Error(String(err))\<close>\<close>

fun as_Error :: "js_error \<Rightarrow> js_error" where
  "as_Error (Error m) = Error m"
| "as_Error ThrownUndefined = Error ''undefined''"

definition isRetryable :: "string \<Rightarrow> bool" where
  "isRetryable msg =
     (let statusMatch = status_match msg;
          status = (case statusMatch of Some g \<Rightarrow> parseInt g | None \<Rightarrow> 0)
      in status \<ge> 500 \<or> status = 429 \<or> statusMatch = None)"

text \<open>The loop \<^verbatim>\<open>for (let attempt = 1; attempt <= maxAttempts; attempt++)\<close> and the
  \<^verbatim>\<open>throw lastError\<close> after it.\<close>

function delete_loop ::
  "delete_tool \<Rightarrow> string \<Rightarrow> string option \<Rightarrow> nat \<Rightarrow> js_error option \<Rightarrow> world
     \<Rightarrow> (js_error + tool_result) \<times> world" where
  "delete_loop tool ident token attempt lastError w =
     (if attempt \<le> maxAttempts then
        (case apiRequest ''DELETE'' (endpoint_of tool ident) token None w of
           (Inr data, w1) \<Rightarrow> (Inr (deleted_result tool ident data), w1)
         | (Inl err, w1) \<Rightarrow>
             if str_includes (message (as_Error err)) ''(404)''
             then (Inr (already_gone_result tool ident), w1)
             else if \<not> isRetryable (message (as_Error err)) \<or> attempt = maxAttempts
             then (Inl (as_Error err), w1)
             else delete_loop tool ident token (attempt + 1) (Some (as_Error err))
                    (sleep (500 * 2 ^ (attempt - 1)) w1))
      else (Inl (case lastError of Some e \<Rightarrow> e | None \<Rightarrow> ThrownUndefined), w))"
  by pat_completeness auto
termination
  by (relation "measure (\<lambda>(tool, ident, token, attempt, lastError, w). maxAttempts - attempt)")
     auto

declare delete_loop.simps [simp del]

definition delete_execute ::
  "delete_tool \<Rightarrow> ToolCtx \<Rightarrow> string \<Rightarrow> world \<Rightarrow> (js_error + tool_result) \<times> world" where
  "delete_execute tool ctx ident w =
     (case getToken ctx w of
        (Inl e, w1) \<Rightarrow> (Inl e, w1)
      | (Inr token, w1) \<Rightarrow> delete_loop tool ident token 1 None w1)"

section \<open>oauth.ts: runOAuthFlow\<close>

definition CLIENT_ID :: string where
  "CLIENT_ID = ''openclaw-plugin-client''"

definition CALLBACK_PORT :: nat where
  "CALLBACK_PORT = 51199"

definition REDIRECT_URI :: string where
  "REDIRECT_URI = ''http://localhost:'' @ string_of_nat CALLBACK_PORT @ ''/callback''"

text \<open>\<^verbatim>\<open>new URLSearchParams({...})\<close> as a string: the form-urlencoded serialisation.\<close>

definition form_unreserved :: string where
  "form_unreserved =
     ''ABCDEFGHIJKLMNOPQRSTUVWXYZabcdefghijklmnopqrstuvwxyz0123456789*-._''"

definition form_encode :: "string \<Rightarrow> string" where
  "form_encode s =
     concat (map (\<lambda>c. if c = CHR '' '' then ''+''
                       else if c \<in> set form_unreserved then [c]
                       else [CHR ''%'', hex_digit (of_char c div 16), hex_digit (of_char c mod 16)])
                 s)"

fun form_serialize :: "(string \<times> string) list \<Rightarrow> string" where
  "form_serialize [] = []"
| "form_serialize [(k, v)] = form_encode k @ ''='' @ form_encode v"
| "form_serialize ((k, v) # kvs) = form_encode k @ ''='' @ form_encode v @ ''&'' @ form_serialize kvs"

definition authUrl :: "world \<Rightarrow> string" where
  "authUrl w =
     OAUTH_BASE_URL @ ''/oauth/authorize?'' @
     form_serialize
       [(''client_id'', CLIENT_ID), (''redirect_uri'', REDIRECT_URI),
        (''response_type'', ''code''),
        (''code_challenge'', sha256_base64url w (random_verifier w)),
        (''code_challenge_method'', ''S256''), (''state'', random_state w),
        (''scope'', ''sandbox'')]"

text \<open>\<^verbatim>\<open>{ code: string; state?: string }\<close>\<close>

record callback =
  code :: string
  state :: "string option"

text \<open>\<^verbatim>\<open>url.searchParams.get(name)\<close> is the first value of that name.\<close>

definition parseCallbackInput :: "world \<Rightarrow> string \<Rightarrow> callback" where
  "parseCallbackInput w input =
     (let trimmed = trim input in
      case URL_searchParams w trimmed of
        None \<Rightarrow> \<lparr>code = trimmed, state = None\<rparr>
      | Some ps \<Rightarrow>
          if \<not> truthy (map_of ps ''code'') then \<lparr>code = trimmed, state = None\<rparr>
          else \<lparr>code = the (map_of ps ''code''), state = map_of ps ''state''\<rparr>)"

record oauth_tokens = refreshed +
  email_of :: "string option"
  apiKey :: "string option"

definition exchange_request :: "string \<Rightarrow> string \<Rightarrow> request" where
  "exchange_request code_in verifier =
     \<lparr>req_method = ''POST'', url = OAUTH_BASE_URL @ ''/oauth/token'',
      headers = [(''Content-Type'', ''application/x-www-form-urlencoded'')],
      body = FormBody [(''grant_type'', ''authorization_code''), (''code'', code_in),
                       (''redirect_uri'', REDIRECT_URI), (''client_id'', CLIENT_ID),
                       (''code_verifier'', verifier)]\<rparr>"

definition exchangeCode ::
  "string \<Rightarrow> string \<Rightarrow> world \<Rightarrow> (js_error + oauth_tokens) \<times> world" where
  "exchangeCode code_in verifier w =
     (case fetch (exchange_request code_in verifier) w of
        (FetchFailed e, w1) \<Rightarrow> (Inl e, w1)
      | (Fetched res, w1) \<Rightarrow>
          if \<not> ok res then
            (case body_read res of
               Inl e \<Rightarrow> (Inl e, w1)
             | Inr text \<Rightarrow>
                 (Inl (Error (''Token exchange failed ('' @ string_of_nat (status res) @ ''): ''
                              @ text)), w1))
          else
            (case body_read res of
               Inl e \<Rightarrow> (Inl e, w1)
             | Inr text \<Rightarrow>
                 (case token_json w1 text of
                    Inl e \<Rightarrow> (Inl e, w1)
                  | Inr d \<Rightarrow>
                      (Inr \<lparr>accessToken = access_token d, refreshToken = refresh_token d,
                            expiresAt = map_option (\<lambda>s. now w1 + s * 1000) (expires_in d),
                            email_of = data_email d, apiKey = api_key d\<rparr>,
                       w1))))"

text \<open>
  \<^verbatim>\<open>listenForCallback\<close>: the promise is rejected when creating the server throws or when
  the first request has no \<^verbatim>\<open>code\<close>, resolved with the parameters of the first request
  otherwise, and never settled (\<open>None\<close>) when no request arrives or its target cannot be
  parsed.
\<close>

definition listenForCallback ::
  "string \<Rightarrow> world \<Rightarrow> (js_error + callback) option \<times> world" where
  "listenForCallback auth_url w =
     (case listener w of
        ListenFailed e \<Rightarrow> (Some (Inl e), w)
      | NoCallback \<Rightarrow> (None, log (OpenUrl auth_url) (log Listen w))
      | Callback target \<Rightarrow>
          (case request_searchParams w target of
             None \<Rightarrow> (None, log (OpenUrl auth_url) (log Listen w))
           | Some ps \<Rightarrow>
               if truthy (map_of ps ''code'')
               then (Some (Inr \<lparr>code = the (map_of ps ''code''), state = map_of ps ''state''\<rparr>),
                     log (OpenUrl auth_url) (log Listen w))
               else (Some (Inl (Error ''No code in callback'')),
                     log (OpenUrl auth_url) (log Listen w))))"

text \<open>\<^verbatim>\<open>parsed.state && parsed.state !== state\<close>\<close>

definition state_mismatch :: "callback \<Rightarrow> string \<Rightarrow> bool" where
  "state_mismatch parsed st = (truthy (state parsed) \<and> state parsed \<noteq> Some st)"

text \<open>
  The three lines that the remote branch and the \<^verbatim>\<open>catch\<close> block share: prompt with the
  given message, parse the input, check the state, exchange the code.
\<close>

definition paste_flow :: "string \<Rightarrow> world \<Rightarrow> (js_error + oauth_tokens) \<times> world" where
  "paste_flow msg w =
     (case prompt_reply w msg of
        Inl e \<Rightarrow> (Inl e, log (Prompt msg) w)
      | Inr input \<Rightarrow>
          let parsed = parseCallbackInput w input in
          if state_mismatch parsed (random_state w)
          then (Inl (Error ''OAuth state mismatch''), log (Prompt msg) w)
          else exchangeCode (code parsed) (random_verifier w) (log (Prompt msg) w))"

text \<open>
  \<^verbatim>\<open>runOAuthFlow\<close>. In the local branch the state check stands inside the \<^verbatim>\<open>try\<close>, so
  what it throws goes to the \<^verbatim>\<open>catch\<close> block; the promise of \<^verbatim>\<open>exchangeCode\<close> is
  returned without \<^verbatim>\<open>await\<close>, so its rejection does not. The result is \<open>None\<close> when
  the flow never settles.
\<close>

definition runOAuthFlow :: "bool \<Rightarrow> world \<Rightarrow> (js_error + oauth_tokens) option \<times> world" where
  "runOAuthFlow isRemote w =
     (if isRemote then
        map_prod Some id
          (paste_flow (''Open this URL and paste the redirect URL (or code):'' @ [CHR 0x0A]
                       @ authUrl w) w)
      else
        case listenForCallback (authUrl w) w of
          (None, w1) \<Rightarrow> (None, w1)
        | (Some (Inr parsed), w1) \<Rightarrow>
            if state_mismatch parsed (random_state w1)
            then map_prod Some id
                   (paste_flow (''Local callback failed. Paste the redirect URL (or code):''
                                @ [CHR 0x0A] @ authUrl w1) w1)
            else map_prod Some id (exchangeCode (code parsed) (random_verifier w1) w1)
        | (Some (Inl e), w1) \<Rightarrow>
            map_prod Some id
              (paste_flow (''Local callback failed. Paste the redirect URL (or code):''
                           @ [CHR 0x0A] @ authUrl w1) w1))"

section \<open>Vocabulary of the properties, and worlds to run the code in\<close>

text \<open>
  \<open>finds_record ctx w profileId authPath st cred\<close>: the override variable is unset or
  blank, the configuration names a profile of this provider, the agent directory is given,
  and the store on disk holds \<open>cred\<close> under that profile. These are the steps of
  \<open>getToken\<close> before it looks into the record.
\<close>

definition finds_record ::
  "ToolCtx \<Rightarrow> world \<Rightarrow> string \<Rightarrow> string \<Rightarrow> store \<Rightarrow> credential \<Rightarrow> bool" where
  "finds_record ctx w profileId authPath st cred =
     (\<not> truthy (map_option trim (env_SANDBOX_API_KEY w))
      \<and> map_option fst (find (\<lambda>(k, prov). prov = Some ''agentsandbox'') (config_profiles ctx))
          = Some profileId
      \<and> profileId \<noteq> []
      \<and> truthy (agentDir ctx)
      \<and> authPath = path_join (the (agentDir ctx)) ''auth-profiles.json''
      \<and> disk w authPath = Some (StoreFile st)
      \<and> Option.bind (profiles st) (\<lambda>ps. map_of ps profileId) = Some cred)"




text \<open>A world and a context to run the resolver in: the profile of the test suite, a
  store with one record, and nothing that answers.\<close>

definition quiet_world :: world where
  "quiet_world =
     \<lparr>env_SANDBOX_API_KEY = None, disk = Map.empty,
      read_error = (\<lambda>p. Error (''ENOENT: no such file or directory, open '' @ p)),
      write_outcome = (\<lambda>p. None),
      now = 1700000000000, latency = (\<lambda>n. 120),
      net = (\<lambda>n. FetchFailed (Error ''fetch failed'')),
      JSON_parse = (\<lambda>s. Inl (Error ''Unexpected token'')),
      token_json = (\<lambda>s. Inl (Error ''Unexpected token'')),
      URL_searchParams = (\<lambda>s. None),
      request_searchParams = (\<lambda>s. None),
      sha256_base64url = (\<lambda>s. ''mock-challenge''),
      random_verifier = ''YWFhYWFhYWFhYWFhYWFhYWFhYWFhYWFhYWFhYWFhYWE'',
      random_state = ''62626262626262626262626262626262'',
      prompt_reply = (\<lambda>m. Inl (Error ''no terminal'')),
      listener = ListenFailed (Error ''EADDRINUSE''),
      trace = []\<rparr>"

definition test_ctx :: ToolCtx where
  "test_ctx = \<lparr>config_profiles = [(''agentsandbox:user@test.com'', Some ''agentsandbox'')],
               agentDir = Some ''/tmp/agent''\<rparr>"

definition test_cred :: credential where
  "test_cred = \<lparr>cred_type = Some ''oauth'', access = None, refresh = None, expires = None,
                key = None, email = None, provider = Some ''agentsandbox''\<rparr>"

definition store_of :: "credential \<Rightarrow> store" where
  "store_of cred = \<lparr>profiles = Some [(''agentsandbox:user@test.com'', cred)]\<rparr>"

definition world_with :: "credential \<Rightarrow> world" where
  "world_with cred =
     quiet_world\<lparr>disk := [''/tmp/agent/auth-profiles.json'' \<mapsto> StoreFile (store_of cred)]\<rparr>"

definition json_response :: "nat \<Rightarrow> string \<Rightarrow> response" where
  "json_response st txt =
     \<lparr>status = st, content_type = Some ''application/json'', body_read = Inr txt\<rparr>"

definition text_response :: "nat \<Rightarrow> string \<Rightarrow> response" where
  "text_response st txt = \<lparr>status = st, content_type = Some ''text/plain'', body_read = Inr txt\<rparr>"







text \<open>A network that gives the listed answers, in order, and then fails; a world with the
  override variable set, whose parser knows the empty object, the acknowledgement that
  the tests of the repository use, and an object that says \<^verbatim>\<open>ok: false\<close>.\<close>

definition answers :: "fetch_result list \<Rightarrow> nat \<Rightarrow> fetch_result" where
  "answers rs n = (if n < length rs then rs ! n else FetchFailed (Error ''fetch failed''))"

definition parse_json :: "string \<Rightarrow> js_error + json" where
  "parse_json s =
     (if s = ''{}'' then Inr (JObj [])
      else if s = ''{\"status\":\"destroyed\"}'' then Inr (JObj [(''status'', JStr ''destroyed'')])
      else if s = ''{\"ok\":false}'' then Inr (JObj [(''ok'', JBool False)])
      else Inl (Error ''Unexpected token''))"

definition keyed_world :: "fetch_result list \<Rightarrow> world" where
  "keyed_world rs =
     quiet_world\<lparr>env_SANDBOX_API_KEY := Some ''key'', net := answers rs, JSON_parse := parse_json\<rparr>"

text \<open>The world after a request has been sent and answered.\<close>

definition requested :: "request \<Rightarrow> world \<Rightarrow> world" where
  "requested rq w = (log (Fetch rq) w)\<lparr>now := now w + int (latency w (length (fetches w)))\<rparr>"

text \<open>The request of one attempt of a delete tool.\<close>

definition delete_request :: "delete_tool \<Rightarrow> string \<Rightarrow> string option \<Rightarrow> request" where
  "delete_request tool ident token = api_request ''DELETE'' (endpoint_of tool ident) token None"




definition quoting_world :: world where
  "quoting_world = keyed_world [Fetched (text_response 500 ''upstream said (404)'')]"


definition failing_world :: world where
  "failing_world =
     keyed_world [Fetched (text_response 500 ''Server Error''),
                  Fetched (text_response 500 ''Server Error''),
                  Fetched (text_response 500 ''Server Error'')]"





section \<open>Token resolution\<close>

subsection \<open>Steps of the resolver\<close>

lemma getToken_env:
  "truthy (map_option trim (env_SANDBOX_API_KEY w)) \<Longrightarrow>
   getToken ctx w = (Inr (map_option trim (env_SANDBOX_API_KEY w)), w)"
  by (simp add: getToken_def)

lemma getToken_record:
  assumes "finds_record ctx w profileId authPath st cred"
  shows "getToken ctx w =
    (let w1 = log (FileRead authPath) w in
     if truthy (key cred) then (Inr (key cred), w1)
     else if access_usable cred (now w1) then (Inr (access cred), w1)
     else if truthy (refresh cred) then
       (case refreshAccessToken (the (refresh cred)) w1 of
          (Inl e, w2) \<Rightarrow> (Inl e, w2)
        | (Inr r, w2) \<Rightarrow>
            (case write_store authPath
                    (set_cred st profileId
                       (cred\<lparr>access := accessToken r, refresh := refreshToken r,
                             expires := expiresAt r\<rparr>)) w2 of
               (Some e, w3) \<Rightarrow> (Inl e, w3)
             | (None, w3) \<Rightarrow> (Inr (accessToken r), w3)))
     else (Inl (Error ALL_TOKENS_EXPIRED), w1))"
proof -
  from assms have env: "\<not> truthy (map_option trim (env_SANDBOX_API_KEY w))"
    and pid: "map_option fst (find (\<lambda>(k, prov). prov = Some ''agentsandbox'') (config_profiles ctx))
          = Some profileId"
    and ne: "profileId \<noteq> []" and dir: "truthy (agentDir ctx)"
    and path: "path_join (the (agentDir ctx)) ''auth-profiles.json'' = authPath"
    and on_disk: "disk w authPath = Some (StoreFile st)"
    and cred: "Option.bind (profiles st) (\<lambda>ps. map_of ps profileId) = Some cred"
    unfolding finds_record_def by blast+
  have rd: "read_store authPath w = (Inr st, log (FileRead authPath) w)"
    by (simp add: read_store_def on_disk)
  show ?thesis
    unfolding getToken_def Let_def pid path
    using env ne dir by (simp add: rd cred split: prod.splits sum.splits option.splits)
qed









lemma finds_test_record:
  "finds_record test_ctx (world_with c) ''agentsandbox:user@test.com''
     ''/tmp/agent/auth-profiles.json'' (store_of c) c"
  by (simp add: finds_record_def test_ctx_def world_with_def quiet_world_def store_of_def
      path_join_def)


lemma not_usable_cases:
  "access cred = None \<or> expires cred = None \<or> t \<ge> the (expires cred) - 5 * 60 * 1000
   \<Longrightarrow> \<not> access_usable cred t"
  by (auto simp: access_usable_def bufferMs_def)

lemma trim_example:
  "trim ([CHR 0xC2, CHR 0xA0] @ '' test-api-key'' @ [CHR 0x09, CHR 0xE2, CHR 0x80, CHR 0xA8])
   = ''test-api-key''"
  by (simp add: trim_def strip.simps white_space_def)

lemma trim_no_break_space: "trim [CHR 0xC2, CHR 0xA0] = []"
  by (simp add: trim_def strip.simps white_space_def)

subsection \<open>The claims about token resolution\<close>




text \<open>
  C2. When the override variable is unset or blank and the record found has a \<^verbatim>\<open>key\<close>
  that is present and not empty, resolution returns the key, whatever \<^verbatim>\<open>access\<close>,
  \<^verbatim>\<open>expires\<close> and \<^verbatim>\<open>refresh\<close> hold: the only thing done is reading the store; no request
  is sent and nothing is written.
\<close>

theorem key_has_priority:
  assumes "finds_record ctx w profileId authPath st cred"
    and "key cred = Some k" and "k \<noteq> []"
  shows "getToken ctx w = (Inr (Some k), w\<lparr>trace := trace w @ [FileRead authPath]\<rparr>)
     \<and> fetches (snd (getToken ctx w)) = fetches w
     \<and> filter is_write (trace (snd (getToken ctx w))) = filter is_write (trace w)
     \<and> disk (snd (getToken ctx w)) = disk w"
  using assms(2,3)
  by (simp add: getToken_record [OF assms(1)] log_def fetches_def)

theorem key_has_priority_witness:
  "finds_record test_ctx
     (world_with (test_cred\<lparr>key := Some ''permanent-key'', access := Some ''stale'',
                            expires := Some 1\<rparr>))
     ''agentsandbox:user@test.com'' ''/tmp/agent/auth-profiles.json''
     (store_of (test_cred\<lparr>key := Some ''permanent-key'', access := Some ''stale'',
                            expires := Some 1\<rparr>))
     (test_cred\<lparr>key := Some ''permanent-key'', access := Some ''stale'', expires := Some 1\<rparr>)
   \<and> fst (getToken test_ctx
        (world_with (test_cred\<lparr>key := Some ''permanent-key'', access := Some ''stale'',
                               expires := Some 1\<rparr>))) = Inr (Some ''permanent-key'')"
proof -
  let ?c = "test_cred\<lparr>key := Some ''permanent-key'', access := Some ''stale'', expires := Some 1\<rparr>"
  have k: "key ?c = Some ''permanent-key''" by simp
  have ne: "''permanent-key'' \<noteq> []" by simp
  show ?thesis
    using key_has_priority [OF finds_test_record [of ?c] k ne] finds_test_record [of ?c]
    by simp
qed

text \<open>
  C8. Token resolution consults \<^verbatim>\<open>SANDBOX_API_KEY\<close> first: whenever its trimmed value is
  not empty, that trimmed value is the bearer token, for every context and every state
  \<open>d\<close> of the disk, and the world after the call is the world before it: nothing was read,
  requested or written.
\<close>

theorem env_override_first:
  assumes "env_SANDBOX_API_KEY w = Some v" and "trim v \<noteq> []"
  shows "getToken ctx (w\<lparr>disk := d\<rparr>) = (Inr (Some (trim v)), w\<lparr>disk := d\<rparr>)"
  using assms getToken_env [of "w\<lparr>disk := d\<rparr>" ctx] by simp

theorem env_override_first_witness:
  "trim ([CHR 0xC2, CHR 0xA0] @ '' test-api-key'' @ [CHR 0x09, CHR 0xE2, CHR 0x80, CHR 0xA8])
     \<noteq> []
   \<and> getToken test_ctx
        (quiet_world\<lparr>env_SANDBOX_API_KEY :=
             Some ([CHR 0xC2, CHR 0xA0] @ '' test-api-key''
                   @ [CHR 0x09, CHR 0xE2, CHR 0x80, CHR 0xA8]),
           disk := Map.empty\<rparr>)
     = (Inr (Some ''test-api-key''),
        quiet_world\<lparr>env_SANDBOX_API_KEY :=
             Some ([CHR 0xC2, CHR 0xA0] @ '' test-api-key''
                   @ [CHR 0x09, CHR 0xE2, CHR 0x80, CHR 0xA8]),
           disk := Map.empty\<rparr>)"
proof -
  let ?v = "[CHR 0xC2, CHR 0xA0] @ '' test-api-key'' @ [CHR 0x09, CHR 0xE2, CHR 0x80, CHR 0xA8]"
  have h1: "env_SANDBOX_API_KEY (quiet_world\<lparr>env_SANDBOX_API_KEY := Some ?v\<rparr>) = Some ?v"
    by simp
  have h2: "trim ?v \<noteq> []" unfolding trim_example by simp
  show ?thesis
    using env_override_first [OF h1 h2, of test_ctx Map.empty] h2
    unfolding trim_example by simp
qed

text \<open>
  C9. A record with no key, no usable access token and no refresh token (each absent or
  empty; \<open>access_usable\<close> is the source's test, see \<open>not_usable_cases\<close>) makes resolution
  fail with the error that starts "All tokens expired and no refresh token available", and
  the disk is as it was.
\<close>

theorem all_tokens_expired:
  assumes "finds_record ctx w profileId authPath st cred"
    and "\<not> truthy (key cred)"
    and "\<not> access_usable cred (now w)"
    and "\<not> truthy (refresh cred)"
  shows "getToken ctx w
         = (Inl (Error ALL_TOKENS_EXPIRED), w\<lparr>trace := trace w @ [FileRead authPath]\<rparr>)
     \<and> prefix ''All tokens expired and no refresh token available'' ALL_TOKENS_EXPIRED
     \<and> disk (snd (getToken ctx w)) = disk w
     \<and> fetches (snd (getToken ctx w)) = fetches w
     \<and> filter is_write (trace (snd (getToken ctx w))) = filter is_write (trace w)"
  using assms(2,3,4)
  by (simp add: getToken_record [OF assms(1)] log_def fetches_def ALL_TOKENS_EXPIRED_def)

theorem all_tokens_expired_witness:
  "finds_record test_ctx (world_with (test_cred\<lparr>access := Some ''old'', expires := Some 1\<rparr>))
     ''agentsandbox:user@test.com'' ''/tmp/agent/auth-profiles.json''
     (store_of (test_cred\<lparr>access := Some ''old'', expires := Some 1\<rparr>))
     (test_cred\<lparr>access := Some ''old'', expires := Some 1\<rparr>)
   \<and> \<not> truthy (key (test_cred\<lparr>access := Some ''old'', expires := Some 1\<rparr>))
   \<and> \<not> access_usable (test_cred\<lparr>access := Some ''old'', expires := Some 1\<rparr>)
         (now (world_with (test_cred\<lparr>access := Some ''old'', expires := Some 1\<rparr>)))
   \<and> \<not> truthy (refresh (test_cred\<lparr>access := Some ''old'', expires := Some 1\<rparr>))
   \<and> fst (getToken test_ctx (world_with (test_cred\<lparr>access := Some ''old'', expires := Some 1\<rparr>)))
       = Inl (Error ALL_TOKENS_EXPIRED)"
proof -
  let ?c = "test_cred\<lparr>access := Some ''old'', expires := Some 1\<rparr>"
  have h2: "\<not> truthy (key ?c)" by (simp add: test_cred_def)
  have h3: "\<not> access_usable ?c (now (world_with ?c))"
    by (simp add: access_usable_def bufferMs_def world_with_def quiet_world_def)
  have h4: "\<not> truthy (refresh ?c)" by (simp add: test_cred_def)
  show ?thesis
    using all_tokens_expired [OF finds_test_record [of ?c] h2 h3 h4]
      finds_test_record [of ?c] h2 h3 h4
    by simp
qed

section \<open>Strings: occurrence, status codes in messages\<close>

lemma str_includes_iff: "str_includes s n \<longleftrightarrow> (\<exists>a b. s = a @ n @ b)"
proof (induction s)
  case Nil
  then show ?case by auto
next
  case (Cons c s)
  show ?case
  proof
    assume "str_includes (c # s) n"
    then consider "prefix n (c # s)" | "str_includes s n" by auto
    then show "\<exists>a b. c # s = a @ n @ b"
    proof cases
      case 1
      then obtain b where "c # s = n @ b" by (auto simp: prefix_def)
      then have "c # s = [] @ n @ b" by simp
      then show ?thesis by blast
    next
      case 2
      then obtain a b where "s = a @ n @ b" using Cons.IH by blast
      then have "c # s = (c # a) @ n @ b" by simp
      then show ?thesis by blast
    qed
  next
    assume "\<exists>a b. c # s = a @ n @ b"
    then obtain a b where ab: "c # s = a @ n @ b" by blast
    show "str_includes (c # s) n"
    proof (cases a)
      case Nil
      then have "prefix n (c # s)" using ab by (simp add: prefix_def)
      then show ?thesis by simp
    next
      case (Cons x a')
      then have "s = a' @ n @ b" using ab by simp
      then have "str_includes s n" using Cons.IH by blast
      then show ?thesis by simp
    qed
  qed
qed

lemma str_includes_append_right: "str_includes b n \<Longrightarrow> str_includes (a @ b) n"
  unfolding str_includes_iff by (metis append.assoc)

lemma str_includes_append_left: "str_includes a n \<Longrightarrow> str_includes (a @ b) n"
  unfolding str_includes_iff by (metis append.assoc)











section \<open>Requests, endpoints and failure messages\<close>

lemma requested_fields:
  "net (requested rq w) = net w" "JSON_parse (requested rq w) = JSON_parse w"
  "disk (requested rq w) = disk w"
  "env_SANDBOX_API_KEY (requested rq w) = env_SANDBOX_API_KEY w"
  "trace (requested rq w) = trace w @ [Fetch rq]"
  "fetches (requested rq w) = fetches w @ [Fetch rq]"
  by (simp_all add: requested_def log_def fetches_def)

lemma sleep_fields:
  "net (sleep ms w) = net w" "JSON_parse (sleep ms w) = JSON_parse w"
  "disk (sleep ms w) = disk w"
  "env_SANDBOX_API_KEY (sleep ms w) = env_SANDBOX_API_KEY w"
  "trace (sleep ms w) = trace w @ [Sleep ms]"
  "fetches (sleep ms w) = fetches w"
  by (simp_all add: sleep_def log_def fetches_def)

lemma apiRequest_answer:
  assumes "net w (length (fetches w)) = Fetched res"
  shows "apiRequest method endpoint token b w =
     (read_response method endpoint res w, requested (api_request method endpoint token b) w)"
  using assms
  by (simp add: apiRequest_def fetch_def read_response_def requested_def log_def
      split: sum.splits)

lemma apiRequest_rejected:
  assumes "net w (length (fetches w)) = FetchFailed e"
  shows "apiRequest method endpoint token b w =
     (Inl e, requested (api_request method endpoint token b) w)"
  using assms by (simp add: apiRequest_def fetch_def requested_def)






lemma encodeURIComponent_append:
  "encodeURIComponent (a @ b) = encodeURIComponent a @ encodeURIComponent b"
  by (simp add: encodeURIComponent_def)

lemma encode_keeps_404:
  assumes "str_includes ident ''(404)''"
  shows "str_includes (endpoint_of tool ident) ''(404)''"
proof -
  from assms obtain a b where ab: "ident = a @ ''(404)'' @ b"
    unfolding str_includes_iff by blast
  have lit: "encodeURIComponent ''(404)'' = ''(404)''"
    by (simp add: encodeURIComponent_def percent_encode_def uri_unreserved_def)
  have "encodeURIComponent ident = encodeURIComponent a @ ''(404)'' @ encodeURIComponent b"
    unfolding ab encodeURIComponent_append lit by (rule refl)
  then have "str_includes (encodeURIComponent ident) ''(404)''"
    unfolding str_includes_iff by blast
  then show ?thesis
    by (cases tool) (simp_all add: str_includes_append_right)
qed


lemma failure_body_matches:
  assumes "str_includes errText ''(404)''"
  shows "str_includes (message (api_failure method endpoint st errText)) ''(404)''"
proof -
  have "message (api_failure method endpoint st errText)
        = (''API '' @ method @ '' '' @ endpoint @ '' failed ('' @ string_of_nat st @ ''): '')
          @ errText"
    by (simp add: api_failure_def)
  then show ?thesis using assms by (simp only: str_includes_append_right)
qed

lemma failure_endpoint_matches:
  assumes "str_includes endpoint ''(404)''"
  shows "str_includes (message (api_failure method endpoint st errText)) ''(404)''"
proof -
  have "message (api_failure method endpoint st errText)
        = (''API '' @ method @ '' '') @ (endpoint @
          ('' failed ('' @ string_of_nat st @ ''): '' @ errText))"
    by (simp add: api_failure_def)
  then show ?thesis using assms
    by (simp only: str_includes_append_right str_includes_append_left)
qed






section \<open>One attempt of the delete loop\<close>

lemma read_response_not_ok:
  "\<not> ok res \<Longrightarrow> body_read res = Inr errText \<Longrightarrow>
   read_response method endpoint res w = Inl (api_failure method endpoint (status res) errText)"
  by (simp add: read_response_def)

lemma as_Error_api_failure [simp]:
  "as_Error (api_failure method endpoint st errText) = api_failure method endpoint st errText"
  by (simp add: api_failure_def)


lemma loop_already_gone:
  assumes "attempt \<le> maxAttempts"
    and "net w (length (fetches w)) = Fetched res"
    and "\<not> ok res" and "body_read res = Inr errText"
    and "str_includes (message (api_failure ''DELETE'' (endpoint_of tool ident) (status res) errText))
           ''(404)''"
  shows "delete_loop tool ident token attempt lastError w
         = (Inr (already_gone_result tool ident), requested (delete_request tool ident token) w)"
  using assms
  by (subst delete_loop.simps)
     (simp add: apiRequest_answer [OF assms(2)] delete_request_def read_response_not_ok)













lemma delete_execute_token:
  "getToken ctx w = (Inr token, w1) \<Longrightarrow>
   delete_execute tool ctx ident w = delete_loop tool ident token 1 None w1"
  by (simp add: delete_execute_def)

lemma first_attempt: "1 \<le> maxAttempts" "1 < maxAttempts" "2 < maxAttempts" "3 = maxAttempts"
  by (simp_all add: maxAttempts_def)

lemma env_key_token:
  assumes "env_SANDBOX_API_KEY w = Some ''key''"
  shows "getToken ctx w = (Inr (Some ''key''), w)"
proof -
  have t: "trim ''key'' = ''key''" by (simp add: trim_def strip.simps white_space_def)
  have "truthy (map_option trim (env_SANDBOX_API_KEY w))" by (simp add: assms t)
  from getToken_env [OF this, of ctx] show ?thesis by (simp add: assms t)
qed

lemma delete_request_pinned:
  "delete_request sandbox_destroy_session ident token =
     \<lparr>req_method = ''DELETE'',
      url = ''https://api.agentsandbox.co/v1/sessions/'' @ encodeURIComponent ident,
      headers = [(''Authorization'', ''Bearer '' @ interpolate token)], body = NoBody\<rparr>"
  "delete_request sandbox_delete_file ident token =
     \<lparr>req_method = ''DELETE'',
      url = ''https://api.agentsandbox.co/v1/files/'' @ encodeURIComponent ident,
      headers = [(''Authorization'', ''Bearer '' @ interpolate token)], body = NoBody\<rparr>"
  by (simp_all add: delete_request_def api_request_def BASE_URL_def)

section \<open>Runs of the delete loop\<close>





lemma trace_after_two:
  "trace (requested rq (sleep 1000 (requested rq (sleep 500 (requested rq w)))))
   = trace w @ [Fetch rq, Sleep 500, Fetch rq, Sleep 1000, Fetch rq]"
  "trace (requested rq (sleep 500 (requested rq w))) = trace w @ [Fetch rq, Sleep 500, Fetch rq]"
  "trace (requested rq w) = trace w @ [Fetch rq]"
  by (simp_all add: sleep_fields requested_fields)





section \<open>Worlds with the override variable set\<close>

lemma keyed_world_fields:
  "env_SANDBOX_API_KEY (keyed_world rs) = Some ''key''"
  "net (keyed_world rs) = answers rs"
  "JSON_parse (keyed_world rs) = parse_json"
  "trace (keyed_world rs) = []"
  "fetches (keyed_world rs) = []"
  by (simp_all add: keyed_world_def quiet_world_def fetches_def)

lemma keyed_token: "getToken ctx (keyed_world rs) = (Inr (Some ''key''), keyed_world rs)"
  by (rule env_key_token) (simp add: keyed_world_fields)

lemma encode_sess: "encodeURIComponent ''sess-1'' = ''sess-1''"
  by (simp add: encodeURIComponent_def percent_encode_def uri_unreserved_def)

lemma text_response_fields:
  "status (text_response st t) = st" "body_read (text_response st t) = Inr t"
  "content_type (text_response st t) = Some ''text/plain''"
  "status (json_response st t) = st" "body_read (json_response st t) = Inr t"
  "content_type (json_response st t) = Some ''application/json''"
  by (simp_all add: text_response_def json_response_def)

lemma session_request:
  "delete_request sandbox_destroy_session ''sess-1'' (Some ''key'')
     = \<lparr>req_method = ''DELETE'', url = ''https://api.agentsandbox.co/v1/sessions/sess-1'',
        headers = [(''Authorization'', ''Bearer key'')], body = NoBody\<rparr>"
  by (simp add: delete_request_pinned encode_sess)


lemma already_gone_pinned:
  "already_gone_result tool ident
     = \<lparr>content = Text (case tool of
                         sandbox_destroy_session \<Rightarrow> ''Session destroyed (already absent).''
                       | sandbox_delete_file \<Rightarrow> ''File deleted (already absent).''),
        details = [(''ok'', JBool True),
                   (case tool of sandbox_destroy_session \<Rightarrow> ''session_id''
                    | sandbox_delete_file \<Rightarrow> ''file_id'', JStr ident),
                   (''already_gone'', JBool True)]\<rparr>"
  by (cases tool) (simp_all add: already_gone_result_def object_literal_def)





lemma encode_odd_id: "encodeURIComponent ''job(404)'' = ''job(404)''"
  by (simp add: encodeURIComponent_def percent_encode_def uri_unreserved_def)

lemma api_request_pinned:
  "api_request method endpoint token b
     = \<lparr>req_method = method, url = ''https://api.agentsandbox.co'' @ endpoint,
        headers = (''Authorization'', ''Bearer '' @ interpolate token)
                  # (case b of None \<Rightarrow> [] | Some v \<Rightarrow> [(''Content-Type'', ''application/json'')]),
        body = (case b of None \<Rightarrow> NoBody | Some v \<Rightarrow> JsonBody v)\<rparr>"
  by (simp add: api_request_def BASE_URL_def)

lemma keyed_first_answer: "net (keyed_world [r]) (length (fetches (keyed_world [r]))) = r"
  by (simp add: keyed_world_fields answers_def)

section \<open>The delete tools: retries\<close>




section \<open>The delete tools: a 404 is success\<close>




section \<open>The delete tools: failures are classified by the text of the message\<close>

text \<open>
  C5. The delete tools look for the text \<^verbatim>\<open>(404)\<close> in the message of the error, and the
  message of \<^verbatim>\<open>apiRequest\<close> embeds the endpoint and the body of the response. So whenever
  a request is answered with a status that is not 2xx, whatever it is, and the body of the
  answer or the identifier contains \<^verbatim>\<open>(404)\<close>, the tool returns the already-gone result,
  \<^verbatim>\<open>ok: true, already_gone: true\<close>, after that one request: it neither retries nor throws.
  The parentheses of an identifier survive \<^verbatim>\<open>encodeURIComponent\<close>.
\<close>

theorem text_match_mistakes_other_failures:
  assumes tok: "getToken ctx w = (Inr token, w0)"
  shows
    "(\<forall>res errText.
        net w0 (length (fetches w0)) = Fetched res \<and> \<not> ok res
        \<and> body_read res = Inr errText
        \<and> (str_includes errText ''(404)'' \<or> str_includes ident ''(404)'')
        \<longrightarrow> delete_execute tool ctx ident w
            = (Inr \<lparr>content = Text (case tool of
                        sandbox_destroy_session \<Rightarrow> ''Session destroyed (already absent).''
                      | sandbox_delete_file \<Rightarrow> ''File deleted (already absent).''),
                    details = [(''ok'', JBool True),
                               (case tool of sandbox_destroy_session \<Rightarrow> ''session_id''
                                | sandbox_delete_file \<Rightarrow> ''file_id'', JStr ident),
                               (''already_gone'', JBool True)]\<rparr>,
               requested (delete_request tool ident token) w0))
     \<and> (str_includes ident ''(404)''
          \<longrightarrow> str_includes (encodeURIComponent ident) ''(404)'')"
proof -
  have c1: "delete_execute tool ctx ident w
            = (Inr \<lparr>content = Text (case tool of
                        sandbox_destroy_session \<Rightarrow> ''Session destroyed (already absent).''
                      | sandbox_delete_file \<Rightarrow> ''File deleted (already absent).''),
                    details = [(''ok'', JBool True),
                               (case tool of sandbox_destroy_session \<Rightarrow> ''session_id''
                                | sandbox_delete_file \<Rightarrow> ''file_id'', JStr ident),
                               (''already_gone'', JBool True)]\<rparr>,
               requested (delete_request tool ident token) w0)"
    if h: "net w0 (length (fetches w0)) = Fetched res \<and> \<not> ok res
        \<and> body_read res = Inr errText
        \<and> (str_includes errText ''(404)'' \<or> str_includes ident ''(404)'')" for res errText
  proof -
    from h have n: "net w0 (length (fetches w0)) = Fetched res" and k: "\<not> ok res"
      and b: "body_read res = Inr errText"
      and d: "str_includes errText ''(404)'' \<or> str_includes ident ''(404)''" by blast+
    from d have m: "str_includes (message (api_failure ''DELETE'' (endpoint_of tool ident)
                      (status res) errText)) ''(404)''"
    proof
      assume "str_includes errText ''(404)''"
      then show ?thesis by (rule failure_body_matches)
    next
      assume "str_includes ident ''(404)''"
      then have "str_includes (endpoint_of tool ident) ''(404)''" by (rule encode_keeps_404)
      then show ?thesis by (rule failure_endpoint_matches)
    qed
    show ?thesis
      unfolding delete_execute_token [OF tok] already_gone_pinned [symmetric]
      by (rule loop_already_gone [OF first_attempt(1) n k b m])
  qed
  have c2: "str_includes (encodeURIComponent ident) ''(404)''" if h: "str_includes ident ''(404)''"
  proof -
    from h obtain a b where "ident = a @ ''(404)'' @ b" unfolding str_includes_iff by blast
    then have "encodeURIComponent ident
               = encodeURIComponent a @ ''(404)'' @ encodeURIComponent b"
      by (simp add: encodeURIComponent_def percent_encode_def uri_unreserved_def)
    then show ?thesis unfolding str_includes_iff by blast
  qed
  have C1: "\<forall>res errText.
        net w0 (length (fetches w0)) = Fetched res \<and> \<not> ok res
        \<and> body_read res = Inr errText
        \<and> (str_includes errText ''(404)'' \<or> str_includes ident ''(404)'')
        \<longrightarrow> delete_execute tool ctx ident w
            = (Inr \<lparr>content = Text (case tool of
                        sandbox_destroy_session \<Rightarrow> ''Session destroyed (already absent).''
                      | sandbox_delete_file \<Rightarrow> ''File deleted (already absent).''),
                    details = [(''ok'', JBool True),
                               (case tool of sandbox_destroy_session \<Rightarrow> ''session_id''
                                | sandbox_delete_file \<Rightarrow> ''file_id'', JStr ident),
                               (''already_gone'', JBool True)]\<rparr>,
               requested (delete_request tool ident token) w0)"
    by (intro allI impI) (rule c1)
  have C2: "str_includes ident ''(404)'' \<longrightarrow> str_includes (encodeURIComponent ident) ''(404)''"
    by (intro impI) (rule c2)
  show ?thesis by (rule conjI [OF C1 C2])
qed

text \<open>Two failures with status 500 that are taken for a 404: the body of the first quotes
  a 404, the file identifier of the second contains one.\<close>

theorem text_match_mistakes_other_failures_witness:
  "getToken test_ctx quoting_world = (Inr (Some ''key''), quoting_world)
   \<and> net quoting_world (length (fetches quoting_world))
       = Fetched (text_response 500 ''upstream said (404)'')
   \<and> status (text_response 500 ''upstream said (404)'') = 500
   \<and> \<not> ok (text_response 500 ''upstream said (404)'')
   \<and> body_read (text_response 500 ''upstream said (404)'') = Inr ''upstream said (404)''
   \<and> str_includes ''upstream said (404)'' ''(404)''
   \<and> \<not> str_includes ''sess-1'' ''(404)''
   \<and> delete_execute sandbox_destroy_session test_ctx ''sess-1'' quoting_world
       = (Inr \<lparr>content = Text ''Session destroyed (already absent).'',
               details = [(''ok'', JBool True), (''session_id'', JStr ''sess-1''),
                          (''already_gone'', JBool True)]\<rparr>,
          requested \<lparr>req_method = ''DELETE'',
                      url = ''https://api.agentsandbox.co/v1/sessions/sess-1'',
                      headers = [(''Authorization'', ''Bearer key'')], body = NoBody\<rparr>
            quoting_world)
   \<and> getToken test_ctx failing_world = (Inr (Some ''key''), failing_world)
   \<and> net failing_world (length (fetches failing_world))
       = Fetched (text_response 500 ''Server Error'')
   \<and> \<not> ok (text_response 500 ''Server Error'')
   \<and> body_read (text_response 500 ''Server Error'') = Inr ''Server Error''
   \<and> \<not> str_includes ''Server Error'' ''(404)''
   \<and> str_includes ''job(404)'' ''(404)''
   \<and> delete_execute sandbox_delete_file test_ctx ''job(404)'' failing_world
       = (Inr \<lparr>content = Text ''File deleted (already absent).'',
               details = [(''ok'', JBool True), (''file_id'', JStr ''job(404)''),
                          (''already_gone'', JBool True)]\<rparr>,
          requested \<lparr>req_method = ''DELETE'',
                      url = ''https://api.agentsandbox.co/v1/files/job(404)'',
                      headers = [(''Authorization'', ''Bearer key'')], body = NoBody\<rparr>
            failing_world)"
proof -
  let ?q = "text_response 500 ''upstream said (404)''"
  let ?r = "text_response 500 ''Server Error''"
  have tok1: "getToken test_ctx quoting_world = (Inr (Some ''key''), quoting_world)"
    unfolding quoting_world_def by (rule keyed_token)
  have n1: "net quoting_world (length (fetches quoting_world)) = Fetched ?q"
    by (simp add: quoting_world_def keyed_world_fields answers_def)
  have q: "status ?q = 500" "\<not> ok ?q" "body_read ?q = Inr ''upstream said (404)''"
    by (simp_all add: ok_def text_response_fields)
  have i1: "str_includes ''upstream said (404)'' ''(404)''" "\<not> str_includes ''sess-1'' ''(404)''"
    by simp_all
  from text_match_mistakes_other_failures [OF tok1, where tool = sandbox_destroy_session and ident = "''sess-1''"]
  have run1: "delete_execute sandbox_destroy_session test_ctx ''sess-1'' quoting_world
       = (Inr \<lparr>content = Text ''Session destroyed (already absent).'',
               details = [(''ok'', JBool True), (''session_id'', JStr ''sess-1''),
                          (''already_gone'', JBool True)]\<rparr>,
          requested (delete_request sandbox_destroy_session ''sess-1'' (Some ''key''))
            quoting_world)"
    using n1 q(2,3) i1(1) by simp
  have tok2: "getToken test_ctx failing_world = (Inr (Some ''key''), failing_world)"
    unfolding failing_world_def by (rule keyed_token)
  have n2: "net failing_world (length (fetches failing_world)) = Fetched ?r"
    by (simp add: failing_world_def keyed_world_fields answers_def)
  have r: "\<not> ok ?r" "body_read ?r = Inr ''Server Error''"
    by (simp_all add: ok_def text_response_fields)
  have i2: "\<not> str_includes ''Server Error'' ''(404)''" "str_includes ''job(404)'' ''(404)''"
    by simp_all
  from text_match_mistakes_other_failures [OF tok2, where tool = sandbox_delete_file and ident = "''job(404)''"]
  have run2: "delete_execute sandbox_delete_file test_ctx ''job(404)'' failing_world
       = (Inr \<lparr>content = Text ''File deleted (already absent).'',
               details = [(''ok'', JBool True), (''file_id'', JStr ''job(404)''),
                          (''already_gone'', JBool True)]\<rparr>,
          requested (delete_request sandbox_delete_file ''job(404)'' (Some ''key''))
            failing_world)"
    using n2 r i2(2) by simp
  have rq: "delete_request sandbox_delete_file ''job(404)'' (Some ''key'')
            = \<lparr>req_method = ''DELETE'', url = ''https://api.agentsandbox.co/v1/files/job(404)'',
               headers = [(''Authorization'', ''Bearer key'')], body = NoBody\<rparr>"
    by (simp add: delete_request_pinned encode_odd_id)
  show ?thesis
    using tok1 n1 q i1 run1 tok2 n2 r i2 run2 unfolding session_request rq
    by (intro conjI)
qed

section \<open>apiRequest: what becomes of a response\<close>

text \<open>
  C7. When \<^verbatim>\<open>apiRequest\<close> receives a response, it has sent one request: the method and the
  endpoint under the base address, with the bearer token and, if there is a body, the JSON
  content type. Of the response it makes:

    \<^item> status 2xx and 204: the empty object, whatever the content type;
    \<^item> another 2xx status and a content type that contains \<^verbatim>\<open>application/json\<close>: what
      \<^verbatim>\<open>JSON.parse\<close> makes of the text of the body, and the empty object if the text is empty;
    \<^item> another 2xx status and any other content type, or none: the text of the body;
    \<^item> a status outside 2xx: the error
      \<^verbatim>\<open>API <method> <endpoint> failed (<status>): <text of the body>\<close>;
    \<^item> if the body has to be read and reading fails, the error of the read.
\<close>

theorem apiRequest_classifies:
  assumes net: "net w (length (fetches w)) = Fetched res"
  shows
    "snd (apiRequest method endpoint token b w)
       = requested \<lparr>req_method = method, url = ''https://api.agentsandbox.co'' @ endpoint,
            headers = (''Authorization'', ''Bearer '' @ interpolate token)
                      # (case b of None \<Rightarrow> []
                         | Some v \<Rightarrow> [(''Content-Type'', ''application/json'')]),
            body = (case b of None \<Rightarrow> NoBody | Some v \<Rightarrow> JsonBody v)\<rparr> w
     \<and> (200 \<le> status res \<and> status res \<le> 299 \<and> status res = 204
          \<longrightarrow> fst (apiRequest method endpoint token b w) = Inr (JObj []))
     \<and> (\<forall>ct rtext.
          200 \<le> status res \<and> status res \<le> 299 \<and> status res \<noteq> 204
          \<and> content_type res = Some ct \<and> str_includes ct ''application/json''
          \<and> body_read res = Inr rtext \<and> rtext \<noteq> []
          \<longrightarrow> fst (apiRequest method endpoint token b w) = JSON_parse w rtext)
     \<and> (\<forall>ct.
          200 \<le> status res \<and> status res \<le> 299 \<and> status res \<noteq> 204
          \<and> content_type res = Some ct \<and> str_includes ct ''application/json''
          \<and> body_read res = Inr []
          \<longrightarrow> fst (apiRequest method endpoint token b w) = Inr (JObj []))
     \<and> (\<forall>rtext.
          200 \<le> status res \<and> status res \<le> 299 \<and> status res \<noteq> 204
          \<and> (content_type res = None
               \<or> (\<exists>ct. content_type res = Some ct \<and> \<not> str_includes ct ''application/json''))
          \<and> body_read res = Inr rtext
          \<longrightarrow> fst (apiRequest method endpoint token b w) = Inr (JStr rtext))
     \<and> (\<forall>rtext.
          (status res < 200 \<or> 299 < status res) \<and> body_read res = Inr rtext
          \<longrightarrow> fst (apiRequest method endpoint token b w)
              = Inl (Error (''API '' @ method @ '' '' @ endpoint @ '' failed (''
                            @ string_of_nat (status res) @ ''): '' @ rtext)))
     \<and> (\<forall>e. status res \<noteq> 204 \<and> body_read res = Inl e
          \<longrightarrow> fst (apiRequest method endpoint token b w) = Inl e)"
proof -
  let ?rq = "\<lparr>req_method = method, url = ''https://api.agentsandbox.co'' @ endpoint,
            headers = (''Authorization'', ''Bearer '' @ interpolate token)
                      # (case b of None \<Rightarrow> []
                         | Some v \<Rightarrow> [(''Content-Type'', ''application/json'')]),
            body = (case b of None \<Rightarrow> NoBody | Some v \<Rightarrow> JsonBody v)\<rparr>"
  have run: "apiRequest method endpoint token b w
             = (read_response method endpoint res w, requested ?rq w)"
    unfolding api_request_pinned [symmetric] by (rule apiRequest_answer [OF net])
  have c0: "snd (apiRequest method endpoint token b w) = requested ?rq w"
    by (simp add: run)
  have c1: "200 \<le> status res \<and> status res \<le> 299 \<and> status res = 204
          \<longrightarrow> fst (apiRequest method endpoint token b w) = Inr (JObj [])"
    by (simp add: run read_response_def ok_def)
  have c2: "\<forall>ct rtext.
          200 \<le> status res \<and> status res \<le> 299 \<and> status res \<noteq> 204
          \<and> content_type res = Some ct \<and> str_includes ct ''application/json''
          \<and> body_read res = Inr rtext \<and> rtext \<noteq> []
          \<longrightarrow> fst (apiRequest method endpoint token b w) = JSON_parse w rtext"
    by (simp add: run read_response_def ok_def)
  have c3: "\<forall>ct.
          200 \<le> status res \<and> status res \<le> 299 \<and> status res \<noteq> 204
          \<and> content_type res = Some ct \<and> str_includes ct ''application/json''
          \<and> body_read res = Inr []
          \<longrightarrow> fst (apiRequest method endpoint token b w) = Inr (JObj [])"
    by (simp add: run read_response_def ok_def)
  have c4: "\<forall>rtext.
          200 \<le> status res \<and> status res \<le> 299 \<and> status res \<noteq> 204
          \<and> (content_type res = None
               \<or> (\<exists>ct. content_type res = Some ct \<and> \<not> str_includes ct ''application/json''))
          \<and> body_read res = Inr rtext
          \<longrightarrow> fst (apiRequest method endpoint token b w) = Inr (JStr rtext)"
    by (auto simp add: run read_response_def ok_def split: option.splits)
  have c5: "\<forall>rtext.
          (status res < 200 \<or> 299 < status res) \<and> body_read res = Inr rtext
          \<longrightarrow> fst (apiRequest method endpoint token b w)
              = Inl (Error (''API '' @ method @ '' '' @ endpoint @ '' failed (''
                            @ string_of_nat (status res) @ ''): '' @ rtext))"
    by (auto simp add: run read_response_def ok_def api_failure_def)
  have c6: "\<forall>e. status res \<noteq> 204 \<and> body_read res = Inl e
          \<longrightarrow> fst (apiRequest method endpoint token b w) = Inl e"
    by (auto simp add: run read_response_def ok_def split: option.splits)
  show ?thesis
    by (rule conjI [OF c0 conjI [OF c1 conjI [OF c2 conjI [OF c3 conjI [OF c4
          conjI [OF c5 c6]]]]]])
qed

text \<open>One response of each kind: 204, JSON, JSON with an empty body, plain text, a server
  error, and a body that breaks off.\<close>

theorem apiRequest_classifies_witness:
  "net (keyed_world [Fetched (json_response 204 [])])
     (length (fetches (keyed_world [Fetched (json_response 204 [])])))
     = Fetched (json_response 204 [])
   \<and> apiRequest ''GET'' ''/v1/sessions'' (Some ''key'') None
       (keyed_world [Fetched (json_response 204 [])])
     = (Inr (JObj []),
        requested \<lparr>req_method = ''GET'', url = ''https://api.agentsandbox.co/v1/sessions'',
                    headers = [(''Authorization'', ''Bearer key'')], body = NoBody\<rparr>
          (keyed_world [Fetched (json_response 204 [])]))
   \<and> str_includes ''application/json'' ''application/json''
   \<and> fst (apiRequest ''POST'' ''/v1/sessions'' (Some ''key'') (Some (JObj []))
            (keyed_world [Fetched (json_response 201 ''{\"status\":\"destroyed\"}'')]))
     = Inr (JObj [(''status'', JStr ''destroyed'')])
   \<and> snd (apiRequest ''POST'' ''/v1/sessions'' (Some ''key'') (Some (JObj []))
            (keyed_world [Fetched (json_response 201 ''{\"status\":\"destroyed\"}'')]))
     = requested \<lparr>req_method = ''POST'', url = ''https://api.agentsandbox.co/v1/sessions'',
                   headers = [(''Authorization'', ''Bearer key''),
                              (''Content-Type'', ''application/json'')],
                   body = JsonBody (JObj [])\<rparr>
         (keyed_world [Fetched (json_response 201 ''{\"status\":\"destroyed\"}'')])
   \<and> fst (apiRequest ''GET'' ''/v1/sessions'' (Some ''key'') None
            (keyed_world [Fetched (json_response 200 [])]))
     = Inr (JObj [])
   \<and> \<not> str_includes ''text/plain'' ''application/json''
   \<and> fst (apiRequest ''GET'' ''/v1/files/f1'' (Some ''key'') None
            (keyed_world [Fetched (text_response 200 ''hello'')]))
     = Inr (JStr ''hello'')
   \<and> fst (apiRequest ''GET'' ''/v1/sessions'' (Some ''key'') None
            (keyed_world [Fetched (text_response 500 ''Server Error'')]))
     = Inl (Error ''API GET /v1/sessions failed (500): Server Error'')
   \<and> fst (apiRequest ''GET'' ''/v1/sessions'' (Some ''key'') None
            (keyed_world [Fetched \<lparr>status = 200, content_type = Some ''application/json'',
                                    body_read = Inl (Error ''terminated'')\<rparr>]))
     = Inl (Error ''terminated'')"
proof -
  let ?a = "json_response 204 []"
  let ?b = "json_response 201 ''{\"status\":\"destroyed\"}''"
  let ?c = "json_response 200 []"
  let ?d = "text_response 200 ''hello''"
  let ?e = "text_response 500 ''Server Error''"
  let ?f = "\<lparr>status = 200, content_type = Some ''application/json'',
             body_read = Inl (Error ''terminated'')\<rparr>"
  have inc: "str_includes ''application/json'' ''application/json''"
    "\<not> str_includes ''text/plain'' ''application/json''" by simp_all
  have st: "string_of_nat 500 = ''500''" by (simp add: string_of_nat.simps digit_char_def)
  have na: "net (keyed_world [Fetched ?a]) (length (fetches (keyed_world [Fetched ?a])))
            = Fetched ?a" by (rule keyed_first_answer)
  note A = apiRequest_classifies [OF na, of "''GET''" "''/v1/sessions''" "Some ''key''" None]
  have a1: "fst (apiRequest ''GET'' ''/v1/sessions'' (Some ''key'') None
                  (keyed_world [Fetched ?a])) = Inr (JObj [])"
    using A by (simp add: text_response_fields)
  have a2: "snd (apiRequest ''GET'' ''/v1/sessions'' (Some ''key'') None
                  (keyed_world [Fetched ?a]))
            = requested \<lparr>req_method = ''GET'', url = ''https://api.agentsandbox.co/v1/sessions'',
                    headers = [(''Authorization'', ''Bearer key'')], body = NoBody\<rparr>
                (keyed_world [Fetched ?a])"
    using A by simp
  have a: "apiRequest ''GET'' ''/v1/sessions'' (Some ''key'') None (keyed_world [Fetched ?a])
     = (Inr (JObj []),
        requested \<lparr>req_method = ''GET'', url = ''https://api.agentsandbox.co/v1/sessions'',
                    headers = [(''Authorization'', ''Bearer key'')], body = NoBody\<rparr>
          (keyed_world [Fetched ?a]))"
    using a1 a2 by (simp add: prod_eq_iff)
  note B = apiRequest_classifies [OF keyed_first_answer [of "Fetched ?b"],
      of "''POST''" "''/v1/sessions''" "Some ''key''" "Some (JObj [])"]
  have b1: "fst (apiRequest ''POST'' ''/v1/sessions'' (Some ''key'') (Some (JObj []))
                  (keyed_world [Fetched ?b])) = Inr (JObj [(''status'', JStr ''destroyed'')])"
    using B by (simp add: text_response_fields keyed_world_fields parse_json_def)
  have b2: "snd (apiRequest ''POST'' ''/v1/sessions'' (Some ''key'') (Some (JObj []))
                  (keyed_world [Fetched ?b]))
     = requested \<lparr>req_method = ''POST'', url = ''https://api.agentsandbox.co/v1/sessions'',
                   headers = [(''Authorization'', ''Bearer key''),
                              (''Content-Type'', ''application/json'')],
                   body = JsonBody (JObj [])\<rparr>
         (keyed_world [Fetched ?b])"
    using B by simp
  note C = apiRequest_classifies [OF keyed_first_answer [of "Fetched ?c"],
      of "''GET''" "''/v1/sessions''" "Some ''key''" None]
  have c: "fst (apiRequest ''GET'' ''/v1/sessions'' (Some ''key'') None
                 (keyed_world [Fetched ?c])) = Inr (JObj [])"
    using C by (simp add: text_response_fields)
  note D = apiRequest_classifies [OF keyed_first_answer [of "Fetched ?d"],
      of "''GET''" "''/v1/files/f1''" "Some ''key''" None]
  have d: "fst (apiRequest ''GET'' ''/v1/files/f1'' (Some ''key'') None
                 (keyed_world [Fetched ?d])) = Inr (JStr ''hello'')"
    using D by (simp add: text_response_fields)
  note E = apiRequest_classifies [OF keyed_first_answer [of "Fetched ?e"],
      of "''GET''" "''/v1/sessions''" "Some ''key''" None]
  have e: "fst (apiRequest ''GET'' ''/v1/sessions'' (Some ''key'') None
                 (keyed_world [Fetched ?e]))
           = Inl (Error ''API GET /v1/sessions failed (500): Server Error'')"
    using E by (simp add: text_response_fields st)
  note F = apiRequest_classifies [OF keyed_first_answer [of "Fetched ?f"],
      of "''GET''" "''/v1/sessions''" "Some ''key''" None]
  have f: "fst (apiRequest ''GET'' ''/v1/sessions'' (Some ''key'') None
                 (keyed_world [Fetched ?f])) = Inl (Error ''terminated'')"
    using F by simp
  show ?thesis using na a inc(1) b1 b2 c inc(2) d e f by (intro conjI)
qed

end
